theory Spec2Isabelle
  imports Main "HOL-Library.Word" "HOL-Library.Signed_Division"
begin

section \<open>Basic types\<close>

type_synonym byte = "8 word"
type_synonym bytes = "byte list"

text \<open>Go's \<^verbatim>\<open>int32\<close>: two's complement, \<open>sint\<close> reads the value.\<close>
type_synonym int32 = "32 word"

section \<open>Errors\<close>

text \<open>
  Go error values. \<open>ErrNotFound\<close> is \<^verbatim>\<open>types.ErrNotFound\<close>, \<open>ErrProviderUnknown\<close> is
  \<^verbatim>\<open>resources.ErrProviderUnknown\<close>, \<open>ErrNotExist\<close> stands for every operating-system error
  that \<^verbatim>\<open>os.IsNotExist\<close> and \<^verbatim>\<open>errors.Is(err, os.ErrNotExist)\<close> accept, \<open>NoSuchKey\<close> is
  the object store's \<^verbatim>\<open>*awstypes.NoSuchKey\<close>, \<open>Failure\<close> is any other error of a
  collaborator (disk, network, database, decoder), \<open>New\<close> is \<^verbatim>\<open>errors.New\<close> /
  \<^verbatim>\<open>errors.Errorf\<close>, and \<open>Wrapped\<close> is an error wrapped by \<^verbatim>\<open>errors.Wrap\<close> /
  \<^verbatim>\<open>errors.Wrapf\<close>; the message is kept as the format string, its arguments are not
  rendered.
\<close>

datatype goerr =
    ErrNotFound
  | ErrProviderUnknown
  | ErrNotExist
  | NoSuchKey
  | Failure string
  | New string
  | Wrapped goerr string

text \<open>A value of Go's \<^verbatim>\<open>error\<close> interface: \<open>None\<close> is \<^verbatim>\<open>nil\<close>.\<close>
type_synonym error = "goerr option"

text \<open>\<^verbatim>\<open>errors.Wrap\<close> and \<^verbatim>\<open>errors.Wrapf\<close> of github.com/pkg/errors: a nil cause gives nil.\<close>

fun Wrap :: "error \<Rightarrow> string \<Rightarrow> error" where
  "Wrap None msg = None"
| "Wrap (Some e) msg = Some (Wrapped e msg)"

text \<open>\<^verbatim>\<open>errors.Is\<close>: the chain of causes is searched for the target.\<close>

fun errors_Is :: "goerr \<Rightarrow> goerr \<Rightarrow> bool" where
  "errors_Is (Wrapped e msg) target = (if Wrapped e msg = target then True else errors_Is e target)"
| "errors_Is e target = (e = target)"

definition IsNotFound :: "goerr \<Rightarrow> bool" where
  "IsNotFound err = errors_Is err ErrNotFound"

text \<open>\<^verbatim>\<open>os.IsNotExist\<close> looks at the operating-system error itself.\<close>

definition os_IsNotExist :: "error \<Rightarrow> bool" where
  "os_IsNotExist err = (err = Some ErrNotExist)"

text \<open>\<^verbatim>\<open>errors.As(err, &nsk)\<close> with \<^verbatim>\<open>nsk *awstypes.NoSuchKey\<close>.\<close>

fun as_NoSuchKey :: "goerr \<Rightarrow> bool" where
  "as_NoSuchKey NoSuchKey = True"
| "as_NoSuchKey (Wrapped e msg) = as_NoSuchKey e"
| "as_NoSuchKey e = False"

fun isMissedKey :: "error \<Rightarrow> bool" where
  "isMissedKey None = False"
| "isMissedKey (Some e) = as_NoSuchKey e"

section \<open>Strings\<close>

definition HasPrefix :: "string \<Rightarrow> string \<Rightarrow> bool" where
  "HasPrefix s p = (take (length p) s = p)"

fun Contains :: "string \<Rightarrow> string \<Rightarrow> bool" where
  "Contains [] sub = (sub = [])"
| "Contains (c # cs) sub = (if HasPrefix (c # cs) sub then True else Contains cs sub)"

definition is_upper :: "char \<Rightarrow> bool" where
  "is_upper c = (65 \<le> (of_char c :: nat) \<and> (of_char c :: nat) \<le> 90)"

definition is_lower :: "char \<Rightarrow> bool" where
  "is_lower c = (97 \<le> (of_char c :: nat) \<and> (of_char c :: nat) \<le> 122)"

text \<open>\<^verbatim>\<open>strings.ToLower\<close> on the ASCII letters; the letters outside ASCII, which the
  library lowers too, are left as they are.\<close>

definition ToLower :: "string \<Rightarrow> string" where
  "ToLower s = map (\<lambda>c. if is_upper c then char_of ((of_char c :: nat) + 32) else c) s"

text \<open>Modelled from the spec: \<^verbatim>\<open>util.HasPrefixes\<close> is declared outside the files at
  hand; thumbnails apply to the content types that start with one of the listed formats,
  so the call holds when some string of the list is a prefix of \<open>src\<close>.\<close>

fun HasPrefixes :: "string \<Rightarrow> string list \<Rightarrow> bool" where
  "HasPrefixes src [] = False"
| "HasPrefixes src (p # ps) = (if HasPrefix src p then True else HasPrefixes src ps)"

fun join_with :: "string \<Rightarrow> string list \<Rightarrow> string" where
  "join_with sep [] = []"
| "join_with sep [x] = x"
| "join_with sep (x # y # ys) = x @ sep @ join_with sep (y # ys)"

subsection \<open>Decimal rendering (\<^verbatim>\<open>%d\<close>, \<^verbatim>\<open>%02d\<close>)\<close>

definition digit_char :: "int \<Rightarrow> char" where
  "digit_char d = char_of (48 + d)"

text \<open>The decimal digits of a number that is not negative.\<close>

function digits :: "int \<Rightarrow> string" where
  "digits n = (if n < 10 then [digit_char n] else digits (n div 10) @ [digit_char (n mod 10)])"
  by pat_completeness auto
termination
  by (relation "measure nat") auto

declare digits.simps [simp del]

definition itoa :: "int \<Rightarrow> string" where
  "itoa i = (if i < 0 then CHR ''-'' # digits (- i) else digits i)"

definition pad2 :: "int \<Rightarrow> string" where
  "pad2 i = (let s = itoa i in replicate (2 - length s) CHR ''0'' @ s)"

section \<open>Paths (\<^verbatim>\<open>path\<close> and \<^verbatim>\<open>path/filepath\<close> on a Unix system)\<close>

fun split_sep :: "string \<Rightarrow> string list" where
  "split_sep [] = [[]]"
| "split_sep (c # cs) =
     (if c = CHR ''/'' then [] # split_sep cs
      else (case split_sep cs of [] \<Rightarrow> [[c]] | x # xs \<Rightarrow> (c # x) # xs))"

text \<open>
  One element of the path against the elements kept so far (the last kept element
  first): empty elements and \<open>.\<close> are dropped; \<open>..\<close> removes the element before it
  when that is not \<open>..\<close>, vanishes at the root of a rooted path and is kept at the
  start of a relative one.
\<close>

definition clean_step :: "bool \<Rightarrow> string \<Rightarrow> string list \<Rightarrow> string list" where
  "clean_step rooted el kept =
     (if el = [] then kept
      else if el = ''.'' then kept
      else if el = ''..'' then
        (case kept of
           [] \<Rightarrow> (if rooted then [] else [''..''])
         | el0 # below \<Rightarrow> (if el0 = ''..'' then ''..'' # kept else below))
      else el # kept)"

text \<open>\<^verbatim>\<open>path.Clean\<close> (and \<^verbatim>\<open>filepath.Clean\<close>): the shortest equivalent path, lexically.\<close>

definition Clean :: "string \<Rightarrow> string" where
  "Clean p =
     (let rooted = HasPrefix p ''/'';
          body = join_with ''/'' (rev (fold (clean_step rooted) (split_sep p) []))
      in if rooted then CHR ''/'' # body
         else if body = [] then ''.'' else body)"

text \<open>\<^verbatim>\<open>filepath.FromSlash\<close>: the separator is already \<open>/\<close>.\<close>

definition FromSlash :: "string \<Rightarrow> string" where
  "FromSlash p = p"

definition IsAbs :: "string \<Rightarrow> bool" where
  "IsAbs p = HasPrefix p ''/''"

text \<open>\<^verbatim>\<open>filepath.Dir\<close>: everything up to the last separator, cleaned.\<close>

definition Dir :: "string \<Rightarrow> string" where
  "Dir p = Clean (rev (dropWhile (\<lambda>c. c \<noteq> CHR ''/'') (rev p)))"

text \<open>\<^verbatim>\<open>filepath.Base\<close>: the last element, trailing separators removed first.\<close>

definition Base :: "string \<Rightarrow> string" where
  "Base p =
     (if p = [] then ''.''
      else let q = rev (dropWhile (\<lambda>c. c = CHR ''/'') (rev p));
               b = rev (takeWhile (\<lambda>c. c \<noteq> CHR ''/'') (rev q))
           in if b = [] then ''/'' else b)"

text \<open>\<^verbatim>\<open>filepath.Join\<close>: leading empty elements are ignored, the rest is joined and cleaned.\<close>

definition Join :: "string list \<Rightarrow> string" where
  "Join elems =
     (case dropWhile (\<lambda>s. s = []) elems of
        [] \<Rightarrow> []
      | e # es \<Rightarrow> Clean (join_with ''/'' (e # es)))"

text \<open>\<^verbatim>\<open>filepath.Ext\<close>: the suffix from the last dot of the last element, or nothing.\<close>

definition Ext :: "string \<Rightarrow> string" where
  "Ext p =
     (let last_el = rev (takeWhile (\<lambda>c. c \<noteq> CHR ''/'') (rev p))
      in if CHR ''.'' \<in> set last_el
         then CHR ''.'' # rev (takeWhile (\<lambda>c. c \<noteq> CHR ''.'') (rev last_el))
         else [])"

section \<open>The environment: clock, randomness, faults of the operating system\<close>

text \<open>The readings of one \<^verbatim>\<open>time.Now()\<close>.\<close>

record tm =
  unix :: int
  year :: int
  month :: int
  day :: int
  hour :: int
  minute :: int
  second :: int

text \<open>The configured providers: \<^verbatim>\<open>local.Local\<close> and \<^verbatim>\<open>s3.S3\<close> behind \<^verbatim>\<open>types.ResourceProvider\<close>.\<close>

record Local =
  rootDir :: string
  pattern :: string
  rawKey :: bool

record S3 =
  bucket :: string

datatype provider = LocalProvider Local | S3Provider S3

text \<open>A decoded raster image: width, height, pixels.\<close>

datatype image = Image int int bytes

text \<open>The calls to the operating system and to the object store that can fail.\<close>

datatype sysop =
    OpStat string
  | OpOpen string
  | OpMkdirAll string
  | OpCreateTemp string
  | OpCopy string
  | OpClose string
  | OpRename string string
  | OpRemove string
  | OpReadAll
  | OpPutObject string string
  | OpGetObject string string
  | OpDeleteObject string string

text \<open>
  What a call of the program sees of the outside: the clock, the random sources, the
  working directory, which system calls fail (\<open>fault\<close> gives the error of a call that
  fails for a reason other than the state of the modelled files and objects), whether
  the lazily built AWS client is available (\<open>aws_client\<close> is the initializer's error),
  the registry of provider factories (\<^verbatim>\<open>providers\<close>, name to factory over the
  configuration's JSON text), the HTTP client (\<open>http_Do\<close> gives the status code and the
  body), the imaging library (\<open>imaging_Save\<close> gives the error and what it wrote to the
  file, if it created one) and the content-type
  detection of \<^verbatim>\<open>mime\<close> and \<^verbatim>\<open>net/http\<close> (\<open>mime_TypeByExtension\<close> gives the empty
  string for an unknown extension).
\<close>

record env =
  now :: tm
  GenUUID :: string
  uuid_New :: bytes
  temp_suffix :: string
  Getwd :: "goerr + string"
  fault :: "sysop \<Rightarrow> error"
  aws_client :: error
  providers :: "string \<rightharpoonup> (string \<Rightarrow> goerr + provider)"
  http_NewRequest :: "string \<Rightarrow> error"
  http_Do :: "string \<Rightarrow> goerr + (int \<times> bytes)"
  imaging_Decode :: "bytes \<Rightarrow> goerr + image"
  imaging_Resize :: "image \<Rightarrow> int \<Rightarrow> int \<Rightarrow> image"
  imaging_Save :: "image \<Rightarrow> string \<Rightarrow> error \<times> bytes option"
  mime_TypeByExtension :: "string \<Rightarrow> string"
  http_DetectContentType :: "bytes \<Rightarrow> string"

text \<open>The events a claim may have to count: accesses to the thumbnail budget, file removals, deletes in the metadata store.\<close>

datatype event =
    CounterLoad
  | CounterAdd int32
  | OsRemove string
  | DriverDeleteResource int32

record world =
  files :: "string \<rightharpoonup> bytes"
  objects :: "string \<times> string \<rightharpoonup> bytes"
  availableGeneratorAmount :: int32
  trace :: "event list"

text \<open>An \<^verbatim>\<open>io.ReadCloser\<close> as the delivery code tells them apart: an open file is an
  \<^verbatim>\<open>io.ReadSeeker\<close>; \<^verbatim>\<open>io.NopCloser(bytes.NewReader(b))\<close> and a response body are not.\<close>

datatype stream =
    FileStream string bytes
  | NopCloser bytes
  | BodyStream bytes

fun stream_bytes :: "stream \<Rightarrow> bytes" where
  "stream_bytes (FileStream p b) = b"
| "stream_bytes (NopCloser b) = b"
| "stream_bytes (BodyStream b) = b"

fun supportsSeek :: "stream \<Rightarrow> bool" where
  "supportsSeek (FileStream p b) = True"
| "supportsSeek (NopCloser b) = False"
| "supportsSeek (BodyStream b) = False"

subsection \<open>System calls on the modelled files\<close>

definition os_Stat :: "env \<Rightarrow> world \<Rightarrow> string \<Rightarrow> error" where
  "os_Stat e w p =
     (case fault e (OpStat p) of
        Some err \<Rightarrow> Some err
      | None \<Rightarrow> (case files w p of None \<Rightarrow> Some ErrNotExist | Some b \<Rightarrow> None))"

definition os_Open :: "env \<Rightarrow> world \<Rightarrow> string \<Rightarrow> goerr + stream" where
  "os_Open e w p =
     (if p = [] then Inl ErrNotExist
      else case fault e (OpOpen p) of
        Some err \<Rightarrow> Inl err
      | None \<Rightarrow> (case files w p of None \<Rightarrow> Inl ErrNotExist | Some b \<Rightarrow> Inr (FileStream p b)))"

definition os_Remove :: "env \<Rightarrow> world \<Rightarrow> string \<Rightarrow> error \<times> world" where
  "os_Remove e w p =
     (let w1 = w\<lparr>trace := trace w @ [OsRemove p]\<rparr>
      in case fault e (OpRemove p) of
           Some err \<Rightarrow> (Some err, w1)
         | None \<Rightarrow> (case files w p of
                      None \<Rightarrow> (Some ErrNotExist, w1)
                    | Some b \<Rightarrow> (None, w1\<lparr>files := (files w)(p := None)\<rparr>)))"

text \<open>\<^verbatim>\<open>filepath.Abs\<close>: an absolute path is cleaned, a relative one joined to the working directory.\<close>

definition Abs :: "env \<Rightarrow> string \<Rightarrow> goerr + string" where
  "Abs e p =
     (if IsAbs p then Inr (Clean p)
      else case Getwd e of Inl err \<Rightarrow> Inl err | Inr wd \<Rightarrow> Inr (Join [wd, p]))"

section \<open>Local filesystem provider: path templates\<close>

text \<open>
  One match of \<^verbatim>\<open>fileKeyPattern = \{[a-z]{1,9}\}\<close> at the head of the string: the
  matched text, or nothing. A lower-case letter is never \<open>}\<close>, so the run of letters
  after the brace is the only candidate.
\<close>

definition match_fileKeyPattern :: "string \<Rightarrow> string option" where
  "match_fileKeyPattern s =
     (case s of
        [] \<Rightarrow> None
      | c # t \<Rightarrow>
          if c \<noteq> CHR ''{'' then None
          else let name = takeWhile is_lower t; rest = dropWhile is_lower t
               in if 1 \<le> length name \<and> length name \<le> 9 \<and> HasPrefix rest ''}''
                  then Some (CHR ''{'' # name @ ''}'')
                  else None)"

text \<open>
  \<^verbatim>\<open>ReplaceAllStringFunc\<close>: the leftmost matches, not overlapping, are replaced by the
  function's result. The number counts the characters of the current match still to skip.
\<close>

fun ReplaceAllStringFunc :: "(string \<Rightarrow> string) \<Rightarrow> nat \<Rightarrow> string \<Rightarrow> string" where
  "ReplaceAllStringFunc f k [] = []"
| "ReplaceAllStringFunc f (Suc k) (c # t) = ReplaceAllStringFunc f k t"
| "ReplaceAllStringFunc f 0 (c # t) =
     (case match_fileKeyPattern (c # t) of
        Some tok \<Rightarrow> f tok @ ReplaceAllStringFunc f (length tok - 1) t
      | None \<Rightarrow> c # ReplaceAllStringFunc f 0 t)"

definition template_value :: "env \<Rightarrow> string \<Rightarrow> string \<Rightarrow> string" where
  "template_value e filename s =
     (if s = ''{filename}'' then filename
      else if s = ''{timestamp}'' then itoa (unix (now e))
      else if s = ''{year}'' then itoa (year (now e))
      else if s = ''{month}'' then pad2 (month (now e))
      else if s = ''{day}'' then pad2 (day (now e))
      else if s = ''{hour}'' then pad2 (hour (now e))
      else if s = ''{minute}'' then pad2 (minute (now e))
      else if s = ''{second}'' then pad2 (second (now e))
      else if s = ''{uuid}'' then GenUUID e
      else s)"

definition replacePathTemplate :: "env \<Rightarrow> string \<Rightarrow> string \<Rightarrow> string" where
  "replacePathTemplate e path filename = ReplaceAllStringFunc (template_value e filename) 0 path"

definition formatFile :: "env \<Rightarrow> Local \<Rightarrow> string \<Rightarrow> string" where
  "formatFile e local filename =
     (let localStoragePath = (if pattern local \<noteq> [] then pattern local else ''assets/{timestamp}_{filename}'');
          internalPath = (if \<not> Contains localStoragePath ''{filename}''
                          then Join [localStoragePath, ''{filename}'']
                          else localStoragePath)
      in replacePathTemplate e internalPath filename)"

definition getPath :: "env \<Rightarrow> Local \<Rightarrow> string \<Rightarrow> goerr + string" where
  "getPath e local key =
     (let res = Clean (FromSlash key);
          dir = Dir res;
          base = Base res
      in Abs e (Join [rootDir local, dir, formatFile e local base]))"

section \<open>Local filesystem provider: operations\<close>

text \<open>
  \<^verbatim>\<open>os.CreateTemp(dir, pattern)\<close>: a pattern with a separator is refused; the random string
  takes the place of the last \<open>*\<close> of the pattern, or follows the pattern when it has
  none. The new file is empty. That a name already in use makes the call draw again is
  not modelled.
\<close>

definition prefixAndSuffix :: "string \<Rightarrow> string \<times> string" where
  "prefixAndSuffix pat =
     (if CHR ''*'' \<in> set pat
      then (rev (tl (dropWhile (\<lambda>c. c \<noteq> CHR ''*'') (rev pat))),
            rev (takeWhile (\<lambda>c. c \<noteq> CHR ''*'') (rev pat)))
      else (pat, []))"

definition CreateTemp :: "env \<Rightarrow> world \<Rightarrow> string \<Rightarrow> string \<Rightarrow> (goerr + string) \<times> world" where
  "CreateTemp e w dir pat =
     (if CHR ''/'' \<in> set pat then (Inl (Failure ''pattern contains path separator''), w)
      else case fault e (OpCreateTemp dir) of
        Some err \<Rightarrow> (Inl err, w)
      | None \<Rightarrow>
          let (pre, suf) = prefixAndSuffix pat;
              name = (if dir \<noteq> [] \<and> last dir = CHR ''/'' then dir else dir @ ''/'')
                     @ pre @ temp_suffix e @ suf
          in (Inr name, w\<lparr>files := (files w)(name \<mapsto> [])\<rparr>))"

definition os_Rename :: "env \<Rightarrow> world \<Rightarrow> string \<Rightarrow> string \<Rightarrow> error \<times> world" where
  "os_Rename e w src dst =
     (case fault e (OpRename src dst) of
        Some err \<Rightarrow> (Some err, w)
      | None \<Rightarrow>
          (case files w src of
             None \<Rightarrow> (Some ErrNotExist, w)
           | Some b \<Rightarrow> (None, w\<lparr>files := ((files w)(src := None))(dst \<mapsto> b)\<rparr>)))"

text \<open>The part of \<^verbatim>\<open>Upload\<close> between the two \<^verbatim>\<open>defer\<close> statements and the return.\<close>

definition Upload_write :: "env \<Rightarrow> world \<Rightarrow> string \<Rightarrow> string \<Rightarrow> bytes \<Rightarrow> error \<times> world" where
  "Upload_write e w tempName resourcePath payload =
     (case fault e (OpCopy tempName) of
        Some err \<Rightarrow> (Some (Wrapped err ''save content to temp file''), w)
      | None \<Rightarrow>
          let w1 = w\<lparr>files := (files w)(tempName \<mapsto> payload)\<rparr>
          in case fault e (OpClose tempName) of
               Some err \<Rightarrow> (Some (Wrapped err ''close and flush temp file''), w1)
             | None \<Rightarrow>
                 (case os_Rename e w1 tempName resourcePath of
                    (Some err, w2) \<Rightarrow> (Some (Wrapped err ''move temp file to destination''), w2)
                  | (None, w2) \<Rightarrow> (None, w2)))"

definition Local_Upload :: "env \<Rightarrow> Local \<Rightarrow> string \<Rightarrow> bytes \<Rightarrow> world \<Rightarrow> error \<times> world" where
  "Local_Upload e local key payload w =
     (case getPath e local key of
        Inl err \<Rightarrow> (Some (Wrapped err ''get path for %q''), w)
      | Inr resourcePath \<Rightarrow>
          let dataDir = Dir resourcePath
          in case fault e (OpMkdirAll dataDir) of
               Some err \<Rightarrow> (Some (Wrapped err ''create base resource dir %q''), w)
             | None \<Rightarrow>
                 (case CreateTemp e w dataDir (Base resourcePath @ ''.tmp.*'') of
                    (Inl err, w1) \<Rightarrow> (Some (Wrapped err ''create temp file''), w1)
                  | (Inr tempName, w1) \<Rightarrow>
                      let (result, w2) = Upload_write e w1 tempName resourcePath payload;
                          (removed, w3) = os_Remove e w2 tempName
                      in (result, w3)))"

definition Local_Download :: "env \<Rightarrow> Local \<Rightarrow> string \<Rightarrow> world \<Rightarrow> goerr + stream" where
  "Local_Download e local key w =
     (let (resourcePath, err, key1) =
            (if rawKey local then
               (let k = FromSlash key;
                    k1 = (if \<not> IsAbs k then Join [rootDir local, k] else k)
                in ([], None, k1))
             else (case getPath e local key of
                     Inl er \<Rightarrow> ([], Some er, key)
                   | Inr p \<Rightarrow> (p, None, key)))
      in case err of
           Some er \<Rightarrow> Inl (Wrapped er ''get path for %q'')
         | None \<Rightarrow>
             (case os_Open e w resourcePath of
                Inl oerr \<Rightarrow>
                  Inl (Wrapped (if os_IsNotExist (Some oerr) then ErrNotFound else oerr) ''open file %q'')
              | Inr src \<Rightarrow> Inr src))"

definition Local_Delete :: "env \<Rightarrow> Local \<Rightarrow> string \<Rightarrow> world \<Rightarrow> error \<times> world" where
  "Local_Delete e local key w =
     (case getPath e local key of
        Inl err \<Rightarrow> (Some (Wrapped err ''get path for %q''), w)
      | Inr resourcePath \<Rightarrow>
          let (err, w1) = os_Remove e w resourcePath;
              err1 = (if os_IsNotExist err then None else err)
          in (Wrap err1 ''remove file %q'', w1))"

section \<open>Object-storage provider\<close>

text \<open>
  \<^verbatim>\<open>s3.client.Get(ctx)\<close> gives the client or the initializer's error (\<open>aws_client\<close>); that a
  built client is kept for later calls is not modelled. An absent key makes the object
  store answer with an operation error whose cause is \<^verbatim>\<open>NoSuchKey\<close>.
\<close>

definition GetObject :: "env \<Rightarrow> world \<Rightarrow> string \<Rightarrow> string \<Rightarrow> goerr + bytes" where
  "GetObject e w b key =
     (case fault e (OpGetObject b key) of
        Some err \<Rightarrow> Inl err
      | None \<Rightarrow>
          (case objects w (b, key) of
             None \<Rightarrow> Inl (Wrapped NoSuchKey ''operation error S3: GetObject'')
           | Some body \<Rightarrow> Inr body))"

definition DeleteObject :: "env \<Rightarrow> world \<Rightarrow> string \<Rightarrow> string \<Rightarrow> error \<times> world" where
  "DeleteObject e w b key =
     (case fault e (OpDeleteObject b key) of
        Some err \<Rightarrow> (Some err, w)
      | None \<Rightarrow> (None, w\<lparr>objects := (objects w)((b, key) := None)\<rparr>))"

definition S3_Upload :: "env \<Rightarrow> S3 \<Rightarrow> string \<Rightarrow> bytes \<Rightarrow> world \<Rightarrow> error \<times> world" where
  "S3_Upload e s3 key payload w =
     (case aws_client e of
        Some err \<Rightarrow> (Some (Wrapped err ''get AWS client''), w)
      | None \<Rightarrow>
          (case fault e (OpPutObject (bucket s3) key) of
             Some err \<Rightarrow> (Some (Wrapped err ''upload %q to S3''), w)
           | None \<Rightarrow> (None, w\<lparr>objects := (objects w)((bucket s3, key) \<mapsto> payload)\<rparr>)))"

definition S3_Download :: "env \<Rightarrow> S3 \<Rightarrow> string \<Rightarrow> world \<Rightarrow> goerr + stream" where
  "S3_Download e s3 key w =
     (case aws_client e of
        Some err \<Rightarrow> Inl (Wrapped err ''get AWS client'')
      | None \<Rightarrow>
          (case GetObject e w (bucket s3) key of
             Inl err0 \<Rightarrow>
               let err = (if isMissedKey (Some err0) then ErrNotFound else err0)
               in Inl (Wrapped ErrNotFound ''get key %q'')
           | Inr body \<Rightarrow> Inr (BodyStream body)))"

definition S3_Delete :: "env \<Rightarrow> S3 \<Rightarrow> string \<Rightarrow> world \<Rightarrow> error \<times> world" where
  "S3_Delete e s3 key w =
     (case aws_client e of
        Some err \<Rightarrow> (Some (Wrapped err ''get AWS client''), w)
      | None \<Rightarrow>
          let (err, w1) = DeleteObject e w (bucket s3) key;
              err1 = (if isMissedKey err then None else err)
          in (Wrap err1 ''delete key %q'', w1))"

section \<open>Provider interface and registry\<close>

fun Upload :: "env \<Rightarrow> provider \<Rightarrow> string \<Rightarrow> bytes \<Rightarrow> world \<Rightarrow> error \<times> world" where
  "Upload e (LocalProvider l) key payload w = Local_Upload e l key payload w"
| "Upload e (S3Provider s) key payload w = S3_Upload e s key payload w"

fun Download :: "env \<Rightarrow> provider \<Rightarrow> string \<Rightarrow> world \<Rightarrow> goerr + stream" where
  "Download e (LocalProvider l) key w = Local_Download e l key w"
| "Download e (S3Provider s) key w = S3_Download e s key w"

fun Delete :: "env \<Rightarrow> provider \<Rightarrow> string \<Rightarrow> world \<Rightarrow> error \<times> world" where
  "Delete e (LocalProvider l) key w = Local_Delete e l key w"
| "Delete e (S3Provider s) key w = S3_Delete e s key w"

text \<open>\<^verbatim>\<open>CreateProvider\<close>: every entry of the registry was stored by \<^verbatim>\<open>RegisterProvider\<close>, so the
  type assertion to a factory succeeds.\<close>

definition CreateProvider :: "env \<Rightarrow> string \<Rightarrow> string \<Rightarrow> goerr + provider" where
  "CreateProvider e name config =
     (case providers e name of
        None \<Rightarrow> Inl (Wrapped ErrProviderUnknown ''get provider %q'')
      | Some fn \<Rightarrow> fn config)"

definition Content :: "env \<Rightarrow> world \<Rightarrow> string \<Rightarrow> string \<Rightarrow> string \<Rightarrow> goerr + stream" where
  "Content e w prov config key =
     (case CreateProvider e prov config of
        Inl err \<Rightarrow> Inl (Wrapped err ''create provider %q'')
      | Inr p \<Rightarrow> Download e p key w)"

section \<open>Resources and the metadata store\<close>

record Resource =
  ID :: int32
  ResourceName :: string
  StorageID :: "int32 option"
  CreatorID :: int32
  CreatedTs :: int
  UpdatedTs :: int
  Filename :: string
  Blob :: "bytes option"
  InternalPath :: string
  ExternalLink :: string
  Type :: string
  Size :: int
  MemoID :: "int32 option"

record FindResource =
  find_GetBlob :: bool
  find_ID :: "int32 option"
  find_ResourceName :: "string option"
  find_CreatorID :: "int32 option"
  find_Filename :: "string option"
  find_MemoID :: "int32 option"
  find_HasRelatedMemo :: bool
  find_Limit :: "int option"
  find_Offset :: "int option"

record DeleteResource =
  delete_ID :: int32
  delete_MemoID :: "int32 option"

text \<open>\<^verbatim>\<open>store.Storage\<close>, \<^verbatim>\<open>store.Memo\<close> and \<^verbatim>\<open>store.WorkspaceSetting\<close> with the fields the
  code reads. The code names the visibilities \<^verbatim>\<open>store.Public\<close> and \<^verbatim>\<open>store.Private\<close>; the
  third one is the one between them.\<close>

record Storage =
  storage_ID :: int32
  storage_Name :: string
  storage_Type :: string
  storage_Config :: string

datatype visibility = Public | Unlisted | Private

record Memo =
  memo_ID :: int32
  Visibility :: visibility

record WorkspaceSetting =
  setting_Name :: string
  setting_Value :: string

text \<open>
  The store: the data root of the profile, the database driver's two calls on resources,
  and the store's lookups of storages, memos and workspace settings, each giving a
  pointer (\<open>None\<close> is \<^verbatim>\<open>nil\<close>) or an error.
\<close>

record Store =
  Profile_Data :: string
  driver_ListResources :: "FindResource \<Rightarrow> goerr + Resource list"
  driver_DeleteResource :: "DeleteResource \<Rightarrow> error"
  GetStorage :: "int32 \<Rightarrow> goerr + Storage option"
  GetMemo :: "int32 \<Rightarrow> goerr + Memo option"
  GetWorkspaceSetting :: "string \<Rightarrow> goerr + WorkspaceSetting option"

definition thumbnailImagePath :: string where
  "thumbnailImagePath = ''.thumbnail_cache''"

definition ListResources :: "Store \<Rightarrow> FindResource \<Rightarrow> goerr + Resource list" where
  "ListResources s fnd = driver_ListResources s fnd"

definition GetResource :: "Store \<Rightarrow> FindResource \<Rightarrow> goerr + Resource option" where
  "GetResource s fnd =
     (case ListResources s fnd of
        Inl err \<Rightarrow> Inl err
      | Inr resources \<Rightarrow> (case resources of [] \<Rightarrow> Inr None | r # rs \<Rightarrow> Inr (Some r)))"

text \<open>The literal \<^verbatim>\<open>&FindResource{ID: &id}\<close>.\<close>

definition FindResource_by_ID :: "int32 \<Rightarrow> FindResource" where
  "FindResource_by_ID i =
     \<lparr>find_GetBlob = False, find_ID = Some i, find_ResourceName = None, find_CreatorID = None,
      find_Filename = None, find_MemoID = None, find_HasRelatedMemo = False,
      find_Limit = None, find_Offset = None\<rparr>"

text \<open>The cache file of a resource's thumbnail.\<close>

definition thumbnail_path :: "Store \<Rightarrow> Resource \<Rightarrow> string" where
  "thumbnail_path s resource =
     Join [Profile_Data s, thumbnailImagePath, itoa (sint (ID resource)) @ Ext (Filename resource)]"

definition legacy_path :: "Store \<Rightarrow> string \<Rightarrow> string" where
  "legacy_path s internalPath =
     (let resourcePath = FromSlash internalPath
      in if \<not> IsAbs resourcePath then Join [Profile_Data s, resourcePath] else resourcePath)"

definition Store_DeleteResource :: "Store \<Rightarrow> env \<Rightarrow> world \<Rightarrow> DeleteResource \<Rightarrow> error \<times> world" where
  "Store_DeleteResource s e w del =
     (case GetResource s (FindResource_by_ID (delete_ID del)) of
        Inl err \<Rightarrow> (Wrap (Some err) ''failed to get resource'', w)
      | Inr None \<Rightarrow> (Wrap None ''resource not found'', w)
      | Inr (Some resource) \<Rightarrow>
          let w1 = (if InternalPath resource \<noteq> []
                    then snd (os_Remove e w (legacy_path s (InternalPath resource)))
                    else w);
              w2 = (if HasPrefixes (Type resource) [''image/png'', ''image/jpeg'']
                    then snd (os_Remove e w1 (thumbnail_path s resource))
                    else w1)
          in (driver_DeleteResource s del,
              w2\<lparr>trace := trace w2 @ [DriverDeleteResource (delete_ID del)]\<rparr>))"

definition openLink :: "env \<Rightarrow> string \<Rightarrow> goerr + stream" where
  "openLink e url =
     (case http_NewRequest e url of
        Some err \<Rightarrow> Inl (Wrapped err ''create request to %q'')
      | None \<Rightarrow>
          (case http_Do e url of
             Inl err \<Rightarrow> Inl (Wrapped err ''execute request to %q'')
           | Inr (StatusCode, body) \<Rightarrow>
               if StatusCode sdiv 100 \<noteq> 2 then Inl (New ''status code %d'')
               else Inr (BodyStream body)))"

text \<open>
  \<^verbatim>\<open>GetResourceContent\<close>. The outer \<open>None\<close> is a panic: \<^verbatim>\<open>storage.Type\<close> read through a
  nil pointer, when the storage lookup gives neither a storage nor an error.
\<close>

definition GetResourceContent :: "Store \<Rightarrow> env \<Rightarrow> world \<Rightarrow> Resource \<Rightarrow> (goerr + stream) option" where
  "GetResourceContent s e w r =
     (case StorageID r of
        Some sid \<Rightarrow>
          (case GetStorage s sid of
             Inl err \<Rightarrow> Some (Inl (Wrapped err ''find storage %d''))
           | Inr None \<Rightarrow> None
           | Inr (Some storage) \<Rightarrow>
               Some (Content e w (storage_Type storage) (storage_Config storage) (ExternalLink r)))
      | None \<Rightarrow>
          (case Blob r of
             Some b \<Rightarrow> Some (Inr (NopCloser b))
           | None \<Rightarrow>
               if InternalPath r \<noteq> [] then Some (os_Open e w (legacy_path s (InternalPath r)))
               else if ExternalLink r \<noteq> [] then Some (openLink e (ExternalLink r))
               else Some (Inl ErrNotExist)))"

section \<open>Saving a blob\<close>

text \<open>The constants and the JSON decoder of package \<^verbatim>\<open>v1\<close> that \<^verbatim>\<open>SaveResourceBlob\<close> uses and
  that are declared elsewhere.\<close>

record v1 =
  SystemSettingStorageServiceIDName :: string
  DefaultStorage :: int32
  DatabaseStorage :: int32
  json_Unmarshal_int32 :: "string \<Rightarrow> int32 \<Rightarrow> goerr + int32"

definition hex_digit :: "nat \<Rightarrow> char" where
  "hex_digit n = ''0123456789abcdef'' ! (n mod 16)"

definition EncodeToString :: "bytes \<Rightarrow> string" where
  "EncodeToString bs = concat (map (\<lambda>b. [hex_digit (unat b div 16), hex_digit (unat b mod 16)]) bs)"

text \<open>\<^verbatim>\<open>generateResourceID\<close>; \<open>uuid_New\<close> is the sixteen bytes of \<^verbatim>\<open>uuid.New()\<close>.\<close>

definition generateResourceID :: "env \<Rightarrow> string" where
  "generateResourceID e =
     (let chunk = 2;
          id = EncodeToString (uuid_New e)
      in Join [take chunk id, take chunk (drop chunk id), take chunk (drop (chunk * 2) id),
               drop (chunk * 3) id])"

text \<open>\<^verbatim>\<open>SaveResourceBlob\<close> gives the error and the resource as the call leaves it; \<open>None\<close> is
  the panic of reading \<^verbatim>\<open>storage.Config\<close> through a nil pointer.\<close>

definition SaveResourceBlob ::
  "v1 \<Rightarrow> Store \<Rightarrow> env \<Rightarrow> world \<Rightarrow> Resource \<Rightarrow> bytes \<Rightarrow> (error \<times> Resource \<times> world) option" where
  "SaveResourceBlob c s e w create payload =
     (case GetWorkspaceSetting s (SystemSettingStorageServiceIDName c) of
        Inl err \<Rightarrow> Some (Wrap (Some err) ''Failed to find SystemSettingStorageServiceIDName'', create, w)
      | Inr systemSettingStorageServiceID \<Rightarrow>
          (case (case systemSettingStorageServiceID of
                   None \<Rightarrow> Inr (DefaultStorage c)
                 | Some setting \<Rightarrow> json_Unmarshal_int32 c (setting_Value setting) (DefaultStorage c)) of
             Inl err \<Rightarrow> Some (Wrap (Some err) ''Failed to unmarshal storage service id'', create, w)
           | Inr storageServiceID \<Rightarrow>
               if storageServiceID = DatabaseStorage c then
                 (case fault e OpReadAll of
                    Some err \<Rightarrow> Some (Wrap (Some err) ''failed to read upload'', create, w)
                  | None \<Rightarrow> Some (None, create\<lparr>Blob := Some payload\<rparr>, w))
               else
                 (case GetStorage s storageServiceID of
                    Inl err \<Rightarrow> Some (Wrap (Some err) ''find storage %d'', create, w)
                  | Inr None \<Rightarrow> None
                  | Inr (Some storage) \<Rightarrow>
                      (case CreateProvider e (storage_Name storage) (storage_Config storage) of
                         Inl err \<Rightarrow> Some (Wrap (Some err) ''create storage %d'', create, w)
                       | Inr provider \<Rightarrow>
                           let create1 = create\<lparr>StorageID := Some storageServiceID\<rparr>;
                               resourceKey = generateResourceID e
                           in (case Upload e provider resourceKey payload w of
                                 (Some err, w1) \<Rightarrow>
                                   Some (Wrap (Some err) ''upload to %d (%s)'', create1, w1)
                               | (None, w1) \<Rightarrow>
                                   Some (None, create1\<lparr>ExternalLink := resourceKey\<rparr>, w1))))))"

section \<open>Thumbnails under a generation budget\<close>

text \<open>\<^verbatim>\<open>atomic.LoadInt32\<close> and \<^verbatim>\<open>atomic.AddInt32\<close> on \<^verbatim>\<open>availableGeneratorAmount\<close>, each
  leaving an event.\<close>

definition LoadInt32 :: "world \<Rightarrow> int32 \<times> world" where
  "LoadInt32 w = (availableGeneratorAmount w, w\<lparr>trace := trace w @ [CounterLoad]\<rparr>)"

definition AddInt32 :: "world \<Rightarrow> int32 \<Rightarrow> world" where
  "AddInt32 w delta =
     w\<lparr>availableGeneratorAmount := availableGeneratorAmount w + delta,
       trace := trace w @ [CounterAdd delta]\<rparr>"

text \<open>\<^verbatim>\<open>imaging.Save\<close>: the file is written as far as the library got.\<close>

definition Save :: "env \<Rightarrow> world \<Rightarrow> image \<Rightarrow> string \<Rightarrow> error \<times> world" where
  "Save e w img filename =
     (case imaging_Save e img filename of
        (err, None) \<Rightarrow> (err, w)
      | (err, Some written) \<Rightarrow> (err, w\<lparr>files := (files w)(filename \<mapsto> written)\<rparr>))"

text \<open>The generation proper: what runs between the \<^verbatim>\<open>defer\<close> of the increment and the end
  of the \<^verbatim>\<open>if\<close> block; an error here is the function's early return.\<close>

definition generateThumbnail :: "env \<Rightarrow> world \<Rightarrow> bytes \<Rightarrow> string \<Rightarrow> error \<times> world" where
  "generateThumbnail e w source dstPath =
     (case imaging_Decode e source of
        Inl err \<Rightarrow> (Wrap (Some err) ''failed to decode thumbnail image'', w)
      | Inr src \<Rightarrow>
          let thumbnailImage = imaging_Resize e src 512 0;
              dstDir = Dir dstPath
          in case fault e (OpMkdirAll dstDir) of
               Some err \<Rightarrow> (Wrap (Some err) ''failed to create thumbnail dir'', w)
             | None \<Rightarrow>
                 (case Save e w thumbnailImage dstPath of
                    (Some err, w1) \<Rightarrow> (Wrap (Some err) ''failed to resize thumbnail image'', w1)
                  | (None, w1) \<Rightarrow> (None, w1)))"

definition getOrGenerateThumbnailImage :: "env \<Rightarrow> world \<Rightarrow> bytes \<Rightarrow> string \<Rightarrow> (goerr + stream) \<times> world" where
  "getOrGenerateThumbnailImage e w source dstPath =
     (case os_Stat e w dstPath of
        Some err \<Rightarrow>
          if \<not> errors_Is err ErrNotExist
          then (Inl (Wrapped err ''failed to check thumbnail image stat''), w)
          else
            let (amount, w1) = LoadInt32 w
            in if sint amount \<le> 0
               then (Inl (New ''not enough available generator amount''), w1)
               else
                 let w2 = AddInt32 w1 (- 1);
                     (failed, w3) = generateThumbnail e w2 source dstPath;
                     result = (case failed of Some er \<Rightarrow> Inl er | None \<Rightarrow> os_Open e w3 dstPath)
                 in (result, AddInt32 w3 1)
      | None \<Rightarrow> (os_Open e w dstPath, w))"

section \<open>Delivery endpoint\<close>

text \<open>An \<^verbatim>\<open>echo.HTTPError\<close>: status code, message, internal error.\<close>

datatype http_error = HTTPError nat string error

text \<open>
  How the handler answers when it does not fail: it hands the stream to
  \<^verbatim>\<open>http.ServeContent\<close> (response headers set so far, name, modification time, content),
  or it calls \<^verbatim>\<open>c.Stream\<close> (response headers set so far, status code, content type, body).
\<close>

datatype served =
    ServeContent "(string \<times> string) list" string int bytes
  | Stream "(string \<times> string) list" nat string bytes

definition MIMETextPlainCharsetUTF8 :: string where
  "MIMETextPlainCharsetUTF8 = ''text/plain; charset=UTF-8''"

definition quoted :: "char \<Rightarrow> string \<Rightarrow> string" where
  "quoted q s = q # s @ [q]"

definition ContentSecurityPolicy :: string where
  "ContentSecurityPolicy =
     ''default-src '' @ quoted (CHR 0x27) ''none'' @ ''; script-src '' @ quoted (CHR 0x27) ''none'' @
     ''; img-src '' @ quoted (CHR 0x27) ''self'' @ ''; media-src '' @ quoted (CHR 0x27) ''self'' @
     ''; sandbox;''"

text \<open>The first block of \<^verbatim>\<open>streamResourceContent\<close>: the visibility of the related memo.
  \<open>userID\<close> is \<^verbatim>\<open>c.Get(userIDContextKey).(int32)\<close>, \<open>None\<close> when the assertion fails.\<close>

definition checkMemoVisibility :: "Store \<Rightarrow> int32 option \<Rightarrow> Resource \<Rightarrow> http_error option" where
  "checkMemoVisibility s userID resource =
     (case MemoID resource of
        None \<Rightarrow> None
      | Some memoID \<Rightarrow>
          (case GetMemo s memoID of
             Inl err \<Rightarrow> Some (HTTPError 500 ''Failed to find memo by ID: %v'' (Some err))
           | Inr None \<Rightarrow> None
           | Inr (Some memo) \<Rightarrow>
               if Visibility memo \<noteq> Public then
                 (case userID of
                    None \<Rightarrow> Some (HTTPError 401 ''Resource visibility not match'' None)
                  | Some uid \<Rightarrow>
                      if Visibility memo = Private \<and> uid \<noteq> CreatorID resource
                      then Some (HTTPError 401 ''Resource visibility not match'' None)
                      else None)
               else None))"

text \<open>The last block: headers, content type, and the choice between range-aware serving
  and sequential streaming.\<close>

definition response_headers :: "Resource \<Rightarrow> (string \<times> string) list" where
  "response_headers resource =
     [(''Cache-Control'', ''max-age=3600''),
      (''Content-Security-Policy'', ContentSecurityPolicy),
      (''Content-Disposition'', ''filename='' @ quoted (CHR 0x22) (Filename resource))]"

definition respond :: "Resource \<Rightarrow> stream \<Rightarrow> served" where
  "respond resource resourceStream =
     (let headers = response_headers resource;
          resourceType = ToLower (Type resource);
          resourceType1 = (if HasPrefix resourceType ''text'' then MIMETextPlainCharsetUTF8
                           else resourceType)
      in if supportsSeek resourceStream
         then ServeContent headers (Filename resource) (UpdatedTs resource) (stream_bytes resourceStream)
         else Stream headers 200 resourceType1 (stream_bytes resourceStream))"

text \<open>The middle of the handler, after the visibility check: the content, and the
  thumbnail when asked for. The outer \<open>None\<close> is the panic of \<open>GetResourceContent\<close>.\<close>

definition deliverContent ::
  "Store \<Rightarrow> env \<Rightarrow> world \<Rightarrow> string \<Rightarrow> Resource \<Rightarrow> (http_error + served) option \<times> world" where
  "deliverContent s e w thumbnail resource =
     (case GetResourceContent s e w resource of
        None \<Rightarrow> (None, w)
      | Some (Inl err) \<Rightarrow> (Some (Inl (HTTPError 500 ''Failed to get resource'' (Some err))), w)
      | Some (Inr resourceStream) \<Rightarrow>
          if thumbnail = ''1'' \<and> HasPrefixes (Type resource) [''image/png'', ''image/jpeg''] then
            (case getOrGenerateThumbnailImage e w (stream_bytes resourceStream) (thumbnail_path s resource) of
               (Inl err, w1) \<Rightarrow>
                 (case GetResourceContent s e w1 resource of
                    None \<Rightarrow> (None, w1)
                  | Some (Inl err1) \<Rightarrow>
                      (Some (Inl (HTTPError 500 ''Failed to get resource'' (Some err1))), w1)
                  | Some (Inr reopened) \<Rightarrow> (Some (Inr (respond resource reopened)), w1))
             | (Inr thumbnailImage, w1) \<Rightarrow> (Some (Inr (respond resource thumbnailImage)), w1))
          else (Some (Inr (respond resource resourceStream)), w))"

definition streamResourceContent ::
  "Store \<Rightarrow> env \<Rightarrow> world \<Rightarrow> int32 option \<Rightarrow> string \<Rightarrow> Resource \<Rightarrow> (http_error + served) option \<times> world" where
  "streamResourceContent s e w userID thumbnail resource =
     (case checkMemoVisibility s userID resource of
        Some herr \<Rightarrow> (Some (Inl herr), w)
      | None \<Rightarrow> deliverContent s e w thumbnail resource)"

text \<open>
  The content type of the response as the HTTP library sends it. \<^verbatim>\<open>c.Stream\<close> sets the
  type it is given. \<^verbatim>\<open>http.ServeContent\<close> keeps a \<^verbatim>\<open>Content-Type\<close> header that is already
  set; otherwise it takes the type of the name's extension and, when there is none, sniffs
  the first 512 bytes.
\<close>

fun response_content_type :: "env \<Rightarrow> served \<Rightarrow> string" where
  "response_content_type e (Stream headers code contentType body) = contentType"
| "response_content_type e (ServeContent headers name modtime content) =
     (case map_of headers ''Content-Type'' of
        Some ctype \<Rightarrow> ctype
      | None \<Rightarrow>
          let ctype = mime_TypeByExtension e (Ext name)
          in if ctype = [] then http_DetectContentType e (take 512 content) else ctype)"

section \<open>Properties of paths\<close>

text \<open>A cleaned path lies under a root directory when it is the cleaned root or continues
  it after a separator.\<close>

definition under_root :: "string \<Rightarrow> string \<Rightarrow> bool" where
  "under_root root p = (if p = Clean root then True else HasPrefix p (Clean root @ ''/''))"

section \<open>Concrete scenarios\<close>

text \<open>Entries of the table of \<^verbatim>\<open>mime.TypeByExtension\<close>.\<close>

definition builtinTypes :: "string \<Rightarrow> string" where
  "builtinTypes ext =
     (if ext = ''.css'' then ''text/css; charset=utf-8''
      else if ext = ''.html'' then ''text/html; charset=utf-8''
      else if ext = ''.js'' then ''text/javascript; charset=utf-8''
      else if ext = ''.json'' then ''application/json''
      else if ext = ''.png'' then ''image/png''
      else if ext = ''.jpg'' then ''image/jpeg''
      else [])"

definition clock :: "int \<Rightarrow> tm" where
  "clock t = \<lparr>unix = t, year = 2023, month = 11, day = 14, hour = 22, minute = 13, second = t mod 60\<rparr>"

text \<open>Factories as \<^verbatim>\<open>RegisterProvider\<close> builds them, on the configuration \<^verbatim>\<open>{}\<close>.\<close>

definition registered :: "string \<rightharpoonup> (string \<Rightarrow> goerr + provider)" where
  "registered =
     [''local'' \<mapsto> (\<lambda>config. if config = ''{}''
                             then Inr (LocalProvider \<lparr>rootDir = [], pattern = [], rawKey = False\<rparr>)
                             else Inl (Wrapped (Failure ''invalid character'') ''decode config for provider %q'')),
      ''S3'' \<mapsto> (\<lambda>config. if config = ''{}''
                          then Inr (S3Provider \<lparr>bucket = []\<rparr>)
                          else Inl (Wrapped (Failure ''invalid character'') ''decode config for provider %q''))]"

text \<open>An environment in which nothing fails that the files and objects do not make fail.\<close>

definition calm :: "tm \<Rightarrow> env" where
  "calm t =
     \<lparr>now = t, GenUUID = ''6ba7b810-9dad-11d1-80b4-00c04fd430c8'',
      uuid_New = [0xab, 0xcd, 0xef, 0x01, 0x23, 0x45, 0x67, 0x89,
                  0xab, 0xcd, 0xef, 0x01, 0x23, 0x45, 0x67, 0x89],
      temp_suffix = ''2718281828'', Getwd = Inr ''/srv/memos'',
      fault = (\<lambda>op. None), aws_client = None, providers = registered,
      http_NewRequest = (\<lambda>url. None),
      http_Do = (\<lambda>url. if url = ''https://example.org/a.bin'' then Inr (200, [7, 7])
                        else if url = ''https://example.org/gone'' then Inr (404, [])
                        else Inl (Failure ''connection refused'')),
      imaging_Decode = (\<lambda>b. if b = [] then Inl (Failure ''image: unknown format'') else Inr (Image 1024 768 b)),
      imaging_Resize = (\<lambda>img width height. img),
      imaging_Save = (\<lambda>img filename. (None, Some [1])),
      mime_TypeByExtension = builtinTypes,
      http_DetectContentType = (\<lambda>b. ''application/octet-stream'')\<rparr>"

text \<open>The same, with the object store failing every \<^verbatim>\<open>GetObject\<close> on a broken connection.\<close>

definition flaky :: "tm \<Rightarrow> env" where
  "flaky t =
     (calm t)\<lparr>fault := (\<lambda>op. case op of
                                OpGetObject b k \<Rightarrow> Some (Failure ''connection reset by peer'')
                              | _ \<Rightarrow> None)\<rparr>"

definition blank :: world where
  "blank = \<lparr>files = Map.empty, objects = Map.empty, availableGeneratorAmount = 32, trace = []\<rparr>"

definition defaultLocal :: Local where
  "defaultLocal = \<lparr>rootDir = ''/data'', pattern = [], rawKey = False\<rparr>"

text \<open>A store with one memo (number 5, of the given visibility), one storage (number 1,
  as the migration creates it: named \<open>Local\<close>, of type \<open>local\<close>; number 2 of type
  \<open>S3\<close>; number 3 cannot be read), no resources, and storage 1 active.\<close>

definition memoStore :: "visibility \<Rightarrow> Store" where
  "memoStore v =
     \<lparr>Profile_Data = ''/var/opt/memos'',
      driver_ListResources = (\<lambda>fnd. Inr []),
      driver_DeleteResource = (\<lambda>del. None),
      GetStorage = (\<lambda>i. if i = 1 then Inr (Some \<lparr>storage_ID = 1, storage_Name = ''Local'',
                                                  storage_Type = ''local'', storage_Config = ''{}''\<rparr>)
                          else if i = 2 then Inr (Some \<lparr>storage_ID = 2, storage_Name = ''Bucket'',
                                                  storage_Type = ''S3'', storage_Config = ''{}''\<rparr>)
                          else if i = 3 then Inl (Failure ''database is locked'')
                          else Inr None),
      GetMemo = (\<lambda>i. if i = 5 then Inr (Some \<lparr>memo_ID = 5, Visibility = v\<rparr>) else Inr None),
      GetWorkspaceSetting = (\<lambda>name. if name = ''storage-service-id''
                                     then Inr (Some \<lparr>setting_Name = ''storage-service-id'', setting_Value = ''1''\<rparr>)
                                     else Inr None)\<rparr>"

definition api :: v1 where
  "api = \<lparr>SystemSettingStorageServiceIDName = ''storage-service-id'',
          DefaultStorage = 0, DatabaseStorage = 0,
          json_Unmarshal_int32 = (\<lambda>text current. if text = ''1'' then Inr 1
                                                  else Inl (Failure ''invalid character''))\<rparr>"

text \<open>A resource with no payload location set, created by user 101.\<close>

definition bare :: Resource where
  "bare = \<lparr>ID = 3, ResourceName = ''a1b2c3'', StorageID = None, CreatorID = 101,
           CreatedTs = 1700000000, UpdatedTs = 1700000000, Filename = ''notes.md'',
           Blob = None, InternalPath = [], ExternalLink = [], Type = ''text/markdown'',
           Size = 2, MemoID = None\<rparr>"

text \<open>The same resource with embedded bytes, linked to memo 5, and linked to a memo that
  does not exist.\<close>

definition linked :: Resource where
  "linked = bare\<lparr>Blob := Some [104, 105], MemoID := Some 5\<rparr>"

definition orphan :: Resource where
  "orphan = bare\<lparr>Blob := Some [104, 105], MemoID := Some 6\<rparr>"

text \<open>An HTML page kept as a legacy local file, and the disk that holds it.\<close>

definition page :: Resource where
  "page = bare\<lparr>Filename := ''page.html'', Type := ''text/html'', InternalPath := ''assets/page.html''\<rparr>"

definition disk :: world where
  "disk = blank\<lparr>files := [''/var/opt/memos/assets/page.html'' \<mapsto> [60, 104, 49, 62]]\<rparr>"

text \<open>One object in the bucket of storage 2 and one legacy file.\<close>

definition cloud :: world where
  "cloud = blank\<lparr>objects := [([], ''ab/cd/ef/0123'') \<mapsto> [9, 9]],
                 files := [''/var/opt/memos/assets/old.bin'' \<mapsto> [8]]\<rparr>"

text \<open>The thumbnail of resource 3, and a world whose generation budget is used up.\<close>

definition thumb :: string where
  "thumb = ''/var/opt/memos/.thumbnail_cache/3.png''"

definition spent :: world where
  "spent = blank\<lparr>availableGeneratorAmount := 0\<rparr>"

section \<open>Supporting lemmas\<close>

lemma sdiv_100_is_2: "(k :: int) sdiv 100 = 2 \<longleftrightarrow> 200 \<le> k \<and> k \<le> 299"
proof (cases "k \<ge> 0")
  case True
  then show ?thesis by (auto simp: signed_divide_int_def sgn_if)
next
  case False
  then have "k sdiv 100 \<le> 0" by (simp add: signed_divide_int_def sgn_if)
  with False show ?thesis by auto
qed

lemma deliverContent_errors_are_500:
  "fst (deliverContent s e w thumbnail resource) = Some (Inl (HTTPError code msg internal)) \<Longrightarrow> code = 500"
  by (auto simp: deliverContent_def split: option.splits sum.splits prod.splits if_splits)

lemma generateThumbnail_counter:
  "availableGeneratorAmount (snd (generateThumbnail e w src dst)) = availableGeneratorAmount w
   \<and> trace (snd (generateThumbnail e w src dst)) = trace w"
  by (auto simp: generateThumbnail_def Save_def Let_def split: sum.splits option.splits prod.splits)

text \<open>The object-storage provider gives back what was stored under a key, whatever the
  clock, when neither call fails.\<close>

lemma S3_roundtrip:
  assumes "aws_client e = None" and "fault e (OpPutObject (bucket s3) key) = None"
    and "aws_client e' = None" and "fault e' (OpGetObject (bucket s3) key) = None"
  shows "S3_Download e' s3 key (snd (S3_Upload e s3 key payload w)) = Inr (BodyStream payload)"
  using assms by (simp add: S3_Download_def S3_Upload_def GetObject_def)

text \<open>Once the client is there, every error of the object-storage provider's download
  passes the not-found test.\<close>

lemma S3_Download_error_IsNotFound:
  assumes "aws_client e = None" and "S3_Download e s3 key w = Inl err"
  shows "IsNotFound err"
  using assms by (auto simp: S3_Download_def IsNotFound_def Let_def split: sum.splits)

text \<open>In raw-key mode the local provider's download computes the path into \<open>key\<close> and
  opens the empty \<open>resourcePath\<close>.\<close>

lemma Local_Download_rawKey:
  assumes "rawKey local"
  shows "Local_Download e local key w = Inl (Wrapped ErrNotFound ''open file %q'')"
  using assms by (simp add: Local_Download_def os_Open_def os_IsNotExist_def Let_def)

text \<open>
  The order in which \<open>GetResourceContent\<close> looks at the payload locations, for a storage
  lookup that gives a storage or an error: an error of the lookup is returned wrapped; a
  storage that is found has its provider created from its type tag and its configuration
  and the content downloaded by the stored key, whatever the other fields hold. Without a
  storage reference, embedded bytes are returned as an in-memory stream; without those, a
  legacy local path is opened, joined under the data root when it is relative; without
  that, a legacy URL is fetched and its body returned exactly for the status codes 200 to
  299; and with none of the four, the result is the error \<^verbatim>\<open>os.ErrNotExist\<close>.
\<close>

lemma GetResourceContent_precedence:
  "(StorageID r = Some sid \<and> GetStorage s sid = Inl err \<longrightarrow>
      GetResourceContent s e w r = Some (Inl (Wrapped err ''find storage %d'')))
 \<and> (StorageID r = Some sid \<and> GetStorage s sid = Inr (Some storage) \<longrightarrow>
      GetResourceContent s e w r
        = Some (Content e w (storage_Type storage) (storage_Config storage) (ExternalLink r)))
 \<and> (CreateProvider e (storage_Type storage) (storage_Config storage) = Inr p \<longrightarrow>
      Content e w (storage_Type storage) (storage_Config storage) (ExternalLink r)
        = Download e p (ExternalLink r) w)
 \<and> (StorageID r = None \<and> Blob r = Some b \<longrightarrow>
      GetResourceContent s e w r = Some (Inr (NopCloser b)))
 \<and> (StorageID r = None \<and> Blob r = None \<and> InternalPath r \<noteq> [] \<longrightarrow>
      GetResourceContent s e w r
        = Some (os_Open e w (if IsAbs (InternalPath r) then InternalPath r
                             else Join [Profile_Data s, InternalPath r])))
 \<and> (StorageID r = None \<and> Blob r = None \<and> InternalPath r = [] \<and> ExternalLink r \<noteq> []
       \<and> http_NewRequest e (ExternalLink r) = None \<and> http_Do e (ExternalLink r) = Inr (code, body) \<longrightarrow>
      GetResourceContent s e w r
        = Some (if 200 \<le> code \<and> code \<le> 299 then Inr (BodyStream body)
                else Inl (New ''status code %d'')))
 \<and> (StorageID r = None \<and> Blob r = None \<and> InternalPath r = [] \<and> ExternalLink r = [] \<longrightarrow>
      GetResourceContent s e w r = Some (Inl ErrNotExist))"
  by (auto simp: GetResourceContent_def Content_def legacy_path_def FromSlash_def openLink_def
      sdiv_100_is_2)

lemma GetResourceContent_precedence_examples:
  "GetResourceContent (memoStore Public) (calm (clock 1700000000)) cloud
      (bare\<lparr>StorageID := Some 3, ExternalLink := ''ab/cd/ef/0123''\<rparr>)
     = Some (Inl (Wrapped (Failure ''database is locked'') ''find storage %d''))
   \<and> GetResourceContent (memoStore Public) (calm (clock 1700000000)) cloud
      (bare\<lparr>StorageID := Some 2, ExternalLink := ''ab/cd/ef/0123'', Blob := Some [1],
            InternalPath := ''assets/old.bin''\<rparr>)
     = Some (Inr (BodyStream [9, 9]))
   \<and> GetResourceContent (memoStore Public) (calm (clock 1700000000)) cloud
      (bare\<lparr>Blob := Some [1], InternalPath := ''assets/old.bin'',
            ExternalLink := ''https://example.org/a.bin''\<rparr>)
     = Some (Inr (NopCloser [1]))
   \<and> GetResourceContent (memoStore Public) (calm (clock 1700000000)) cloud
      (bare\<lparr>InternalPath := ''assets/old.bin'', ExternalLink := ''https://example.org/a.bin''\<rparr>)
     = Some (Inr (FileStream ''/var/opt/memos/assets/old.bin'' [8]))
   \<and> GetResourceContent (memoStore Public) (calm (clock 1700000000)) cloud
      (bare\<lparr>ExternalLink := ''https://example.org/a.bin''\<rparr>)
     = Some (Inr (BodyStream [7, 7]))
   \<and> GetResourceContent (memoStore Public) (calm (clock 1700000000)) cloud
      (bare\<lparr>ExternalLink := ''https://example.org/gone''\<rparr>)
     = Some (Inl (New ''status code %d''))
   \<and> GetResourceContent (memoStore Public) (calm (clock 1700000000)) cloud bare
     = Some (Inl ErrNotExist)"
proof -
  let ?s = "memoStore Public" and ?e = "calm (clock 1700000000)"
  let ?bucket = "\<lparr>storage_ID = 2, storage_Name = ''Bucket'', storage_Type = ''S3'', storage_Config = ''{}''\<rparr>"
  have locked: "GetStorage ?s 3 = Inl (Failure ''database is locked'')"
    and found: "GetStorage ?s 2 = Inr (Some ?bucket)"
    and root: "Profile_Data ?s = ''/var/opt/memos''"
    by (simp_all add: memoStore_def)
  have made: "CreateProvider ?e (storage_Type ?bucket) (storage_Config ?bucket)
                = Inr (S3Provider \<lparr>bucket = []\<rparr>)"
    by (simp add: CreateProvider_def calm_def registered_def)
  have got: "Download ?e (S3Provider \<lparr>bucket = []\<rparr>) ''ab/cd/ef/0123'' cloud = Inr (BodyStream [9, 9])"
    by (simp add: S3_Download_def GetObject_def calm_def cloud_def)
  have opened: "os_Open ?e cloud (Join [''/var/opt/memos'', ''assets/old.bin''])
                  = Inr (FileStream ''/var/opt/memos/assets/old.bin'' [8])"
    by code_simp
  have req: "http_NewRequest ?e url = None" for url
    by (simp add: calm_def)
  have ok: "http_Do ?e ''https://example.org/a.bin'' = Inr (200, [7, 7])"
    and gone: "http_Do ?e ''https://example.org/gone'' = Inr (404, [])"
    by (simp_all add: calm_def)
  note a = GetResourceContent_precedence [where s = ?s and e = ?e and w = cloud and sid = 3
      and err = "Failure ''database is locked''"
      and r = "bare\<lparr>StorageID := Some 3, ExternalLink := ''ab/cd/ef/0123''\<rparr>"]
  note b = GetResourceContent_precedence [where s = ?s and e = ?e and w = cloud and sid = 2
      and storage = ?bucket and p = "S3Provider \<lparr>bucket = []\<rparr>"
      and r = "bare\<lparr>StorageID := Some 2, ExternalLink := ''ab/cd/ef/0123'', Blob := Some [1],
                    InternalPath := ''assets/old.bin''\<rparr>"]
  note c = GetResourceContent_precedence [where s = ?s and e = ?e and w = cloud and b = "[1]"
      and r = "bare\<lparr>Blob := Some [1], InternalPath := ''assets/old.bin'',
                    ExternalLink := ''https://example.org/a.bin''\<rparr>"]
  note d = GetResourceContent_precedence [where s = ?s and e = ?e and w = cloud
      and r = "bare\<lparr>InternalPath := ''assets/old.bin'', ExternalLink := ''https://example.org/a.bin''\<rparr>"]
  note f = GetResourceContent_precedence [where s = ?s and e = ?e and w = cloud and code = 200
      and body = "[7, 7]" and r = "bare\<lparr>ExternalLink := ''https://example.org/a.bin''\<rparr>"]
  note g = GetResourceContent_precedence [where s = ?s and e = ?e and w = cloud and code = 404
      and body = "[]" and r = "bare\<lparr>ExternalLink := ''https://example.org/gone''\<rparr>"]
  note h = GetResourceContent_precedence [where s = ?s and e = ?e and w = cloud and r = bare]
  have 1: "GetResourceContent ?s ?e cloud (bare\<lparr>StorageID := Some 3, ExternalLink := ''ab/cd/ef/0123''\<rparr>)
     = Some (Inl (Wrapped (Failure ''database is locked'') ''find storage %d''))"
    using a locked by simp
  have 2: "GetResourceContent ?s ?e cloud
      (bare\<lparr>StorageID := Some 2, ExternalLink := ''ab/cd/ef/0123'', Blob := Some [1],
            InternalPath := ''assets/old.bin''\<rparr>)
     = Some (Inr (BodyStream [9, 9]))"
    using b found made got by simp
  have 3: "GetResourceContent ?s ?e cloud
      (bare\<lparr>Blob := Some [1], InternalPath := ''assets/old.bin'',
            ExternalLink := ''https://example.org/a.bin''\<rparr>)
     = Some (Inr (NopCloser [1]))"
    using c by (simp add: bare_def)
  have 4: "GetResourceContent ?s ?e cloud
      (bare\<lparr>InternalPath := ''assets/old.bin'', ExternalLink := ''https://example.org/a.bin''\<rparr>)
     = Some (Inr (FileStream ''/var/opt/memos/assets/old.bin'' [8]))"
    using d opened root by (simp add: bare_def IsAbs_def HasPrefix_def)
  have 5: "GetResourceContent ?s ?e cloud (bare\<lparr>ExternalLink := ''https://example.org/a.bin''\<rparr>)
     = Some (Inr (BodyStream [7, 7]))"
    using f req ok by (simp add: bare_def)
  have 6: "GetResourceContent ?s ?e cloud (bare\<lparr>ExternalLink := ''https://example.org/gone''\<rparr>)
     = Some (Inl (New ''status code %d''))"
    using g req gone by (simp add: bare_def)
  have 7: "GetResourceContent ?s ?e cloud bare = Some (Inl ErrNotExist)"
    using h by (simp add: bare_def)
  from 1 2 3 4 5 6 7 show ?thesis by blast
qed

text \<open>A storage reference whose lookup gives neither a storage nor an error: the call
  panics, whatever the other fields hold.\<close>

lemma GetResourceContent_missing_storage:
  assumes "StorageID r = Some sid" and "GetStorage s sid = Inr None"
  shows "GetResourceContent s e w r = None"
  using assms by (simp add: GetResourceContent_def)

text \<open>The error for a resource with no location is \<^verbatim>\<open>os.ErrNotExist\<close>; it does not pass the
  test for the providers' \<^verbatim>\<open>types.ErrNotFound\<close>.\<close>

lemma ErrNotExist_not_IsNotFound: "\<not> IsNotFound ErrNotExist"
  by (simp add: IsNotFound_def)

section \<open>The claims\<close>

text \<open>
  Claim C1 (round-trip law): for every provider, downloading a key after uploading a payload
  under it returns the payload, also for the local provider in non-raw mode, where the key
  goes through the path template on the write and on the read path. The local provider
  with its default template \<^verbatim>\<open>assets/{timestamp}_{filename}\<close> stores the payload under the
  second of the upload; a download in the same second finds it, a download one second
  later looks under another name and reports that the content does not exist.
\<close>

theorem Local_roundtrip_lost_after_clock_tick:
  "fst (Local_Upload (calm (clock 1700000000)) defaultLocal ''ab/cd/ef/0123'' [1, 2, 3] blank) = None
   \<and> files (snd (Local_Upload (calm (clock 1700000000)) defaultLocal ''ab/cd/ef/0123'' [1, 2, 3] blank))
        ''/data/ab/cd/ef/assets/1700000000_0123'' = Some [1, 2, 3]
   \<and> Local_Download (calm (clock 1700000000)) defaultLocal ''ab/cd/ef/0123''
        (snd (Local_Upload (calm (clock 1700000000)) defaultLocal ''ab/cd/ef/0123'' [1, 2, 3] blank))
      = Inr (FileStream ''/data/ab/cd/ef/assets/1700000000_0123'' [1, 2, 3])
   \<and> Local_Download (calm (clock 1700000001)) defaultLocal ''ab/cd/ef/0123''
        (snd (Local_Upload (calm (clock 1700000000)) defaultLocal ''ab/cd/ef/0123'' [1, 2, 3] blank))
      = Inl (Wrapped ErrNotFound ''open file %q'')
   \<and> IsNotFound (Wrapped ErrNotFound ''open file %q'')"
  by code_simp

text \<open>
  Claim C2 (visibility of the parent memo): for a resource linked to a memo that the lookup
  finds, a public memo lets every caller through to the delivery of the content, the
  anonymous caller included; a memo that is not public makes the request without a caller
  identity end in 401; a private memo makes every request whose caller is not the
  resource's creator end in 401; a caller with an identity passes otherwise. The delivery
  itself never answers 401.
\<close>

theorem memo_visibility_enforced:
  assumes "MemoID resource = Some memoID" and "GetMemo s memoID = Inr (Some memo)"
  shows "(Visibility memo = Public \<longrightarrow>
            streamResourceContent s e w userID thumbnail resource = deliverContent s e w thumbnail resource)
       \<and> (Visibility memo \<noteq> Public \<and> userID = None \<longrightarrow>
            streamResourceContent s e w userID thumbnail resource
              = (Some (Inl (HTTPError 401 ''Resource visibility not match'' None)), w))
       \<and> (Visibility memo = Private \<and> userID \<noteq> Some (CreatorID resource) \<longrightarrow>
            streamResourceContent s e w userID thumbnail resource
              = (Some (Inl (HTTPError 401 ''Resource visibility not match'' None)), w))
       \<and> (Visibility memo \<noteq> Public \<and> userID = Some uid
            \<and> (Visibility memo = Private \<longrightarrow> uid = CreatorID resource) \<longrightarrow>
            streamResourceContent s e w userID thumbnail resource = deliverContent s e w thumbnail resource)
       \<and> fst (deliverContent s e w thumbnail resource) \<noteq> Some (Inl (HTTPError 401 msg internal))"
proof -
  have no401: "fst (deliverContent s e w thumbnail resource) \<noteq> Some (Inl (HTTPError 401 msg internal))"
    using deliverContent_errors_are_500 [of s e w thumbnail resource 401 msg internal] by auto
  show ?thesis
    using assms no401
    by (cases userID) (auto simp: streamResourceContent_def checkMemoVisibility_def)
qed

theorem memo_visibility_enforced_witness:
  "MemoID linked = Some 5
   \<and> (\<forall>v. GetMemo (memoStore v) 5 = Inr (Some \<lparr>memo_ID = 5, Visibility = v\<rparr>))
   \<and> streamResourceContent (memoStore Public) (calm (clock 1700000000)) blank None [] linked
       = (Some (Inr (Stream (response_headers linked) 200 MIMETextPlainCharsetUTF8 [104, 105])), blank)
   \<and> streamResourceContent (memoStore Unlisted) (calm (clock 1700000000)) blank None [] linked
       = (Some (Inl (HTTPError 401 ''Resource visibility not match'' None)), blank)
   \<and> streamResourceContent (memoStore Private) (calm (clock 1700000000)) blank (Some 102) [] linked
       = (Some (Inl (HTTPError 401 ''Resource visibility not match'' None)), blank)
   \<and> streamResourceContent (memoStore Private) (calm (clock 1700000000)) blank (Some 101) [] linked
       = (Some (Inr (Stream (response_headers linked) 200 MIMETextPlainCharsetUTF8 [104, 105])), blank)"
proof -
  have m: "MemoID linked = Some 5"
    by (simp add: linked_def)
  have g: "GetMemo (memoStore v) 5 = Inr (Some \<lparr>memo_ID = 5, Visibility = v\<rparr>)" for v
    by (simp add: memoStore_def)
  have c: "CreatorID linked = 101"
    by (simp add: linked_def bare_def)
  have d: "deliverContent (memoStore v) (calm (clock 1700000000)) blank [] linked
     = (Some (Inr (Stream (response_headers linked) 200 MIMETextPlainCharsetUTF8 [104, 105])), blank)" for v
    by (simp add: deliverContent_def GetResourceContent_def linked_def bare_def respond_def
        ToLower_def HasPrefix_def is_upper_def MIMETextPlainCharsetUTF8_def)
  note pub = memo_visibility_enforced [OF m g [of Public], of "calm (clock 1700000000)" blank None "[]"]
  note unl = memo_visibility_enforced [OF m g [of Unlisted], of "calm (clock 1700000000)" blank None "[]"]
  note oth = memo_visibility_enforced [OF m g [of Private], of "calm (clock 1700000000)" blank "Some 102" "[]"]
  note own = memo_visibility_enforced [OF m g [of Private], of "calm (clock 1700000000)" blank "Some 101" "[]" 101]
  show ?thesis
    using m g pub unl oth own by (simp add: c d)
qed

text \<open>
  Claim C3 (precedence of the payload locations): for every resource record,
  \<open>GetResourceContent\<close> resolves the payload with this precedence: a storage reference
  leads to the lookup of the backend configuration and a download by the stored key;
  otherwise embedded bytes, then a legacy local path, then a legacy URL; and the not-found
  condition when none applies. A record whose storage reference names a storage that the
  lookup does not find (no storage, no error) makes the call read \<^verbatim>\<open>storage.Type\<close> through
  a nil pointer: neither a stream nor an error comes back, the embedded bytes of the
  record are not looked at, and the handler that asked for the content does not answer.
\<close>

theorem GetResourceContent_panics_on_missing_storage:
  "GetStorage (memoStore Public) 4 = Inr None
   \<and> GetResourceContent (memoStore Public) (calm (clock 1700000000)) cloud
        (bare\<lparr>StorageID := Some 4, ExternalLink := ''ab/cd/ef/0123'', Blob := Some [1]\<rparr>)
      = None
   \<and> fst (streamResourceContent (memoStore Public) (calm (clock 1700000000)) cloud None []
            (bare\<lparr>StorageID := Some 4, ExternalLink := ''ab/cd/ef/0123'', Blob := Some [1]\<rparr>))
      = None"
  by code_simp

text \<open>
  Claim C4 (no key leaves the root): in non-raw mode the path derived from a key lies under
  the configured root directory, the cleaning step removing traversal sequences. Cleaning
  keeps the \<open>..\<close> elements at the start of a relative key: for the root \<open>/data\<close> the key
  \<open>../../etc/passwd\<close> gives a path under \<open>/etc\<close>, and an upload under that key writes
  there.
\<close>

theorem getPath_leaves_root:
  "getPath (calm (clock 1700000000)) defaultLocal ''../../etc/passwd''
     = Inr ''/etc/assets/1700000000_passwd''
   \<and> \<not> under_root (rootDir defaultLocal) ''/etc/assets/1700000000_passwd''
   \<and> fst (Local_Upload (calm (clock 1700000000)) defaultLocal ''../../etc/passwd'' [1, 2, 3] blank) = None
   \<and> files (snd (Local_Upload (calm (clock 1700000000)) defaultLocal ''../../etc/passwd'' [1, 2, 3] blank))
        ''/etc/assets/1700000000_passwd'' = Some [1, 2, 3]"
  by code_simp

text \<open>
  Claim C5 (errors of the object-storage download): the download reports the shared
  not-found condition exactly when the key is absent, and every other failure of the
  object store as an error that can be told from it. With the object present and the
  connection to the object store broken, \<open>GetObject\<close> fails with an error that is not a
  missing key, and the download returns \<^verbatim>\<open>ErrNotFound\<close> wrapped.
\<close>

theorem S3_Download_reports_broken_connection_as_not_found:
  "objects (blank\<lparr>objects := [(''memos'', ''ab/cd/ef/0123'') \<mapsto> [1, 2, 3]]\<rparr>) (''memos'', ''ab/cd/ef/0123'')
      = Some [1, 2, 3]
   \<and> GetObject (flaky (clock 1700000000)) (blank\<lparr>objects := [(''memos'', ''ab/cd/ef/0123'') \<mapsto> [1, 2, 3]]\<rparr>)
        ''memos'' ''ab/cd/ef/0123'' = Inl (Failure ''connection reset by peer'')
   \<and> \<not> isMissedKey (Some (Failure ''connection reset by peer''))
   \<and> S3_Download (flaky (clock 1700000000)) \<lparr>bucket = ''memos''\<rparr> ''ab/cd/ef/0123''
        (blank\<lparr>objects := [(''memos'', ''ab/cd/ef/0123'') \<mapsto> [1, 2, 3]]\<rparr>)
      = Inl (Wrapped ErrNotFound ''get key %q'')
   \<and> IsNotFound (Wrapped ErrNotFound ''get key %q'')"
  by code_simp

text \<open>
  Claim C6 (generation budget): when the cache file exists, the call leaves the counter
  alone, neither reading nor changing it, and returns the opened cache file; when the file
  does not exist and the counter is not positive, the call fails at once with the capacity
  error, having read the counter and not changed it; and on every path the counter after
  the call has the value it had before, the call's accesses being none, one read, or one
  read followed by one decrement and one increment.
\<close>

theorem thumbnail_budget_preserved:
  "(os_Stat e w dstPath = None \<longrightarrow>
      getOrGenerateThumbnailImage e w source dstPath = (os_Open e w dstPath, w))
 \<and> (os_Stat e w dstPath = None \<and> dstPath \<noteq> [] \<and> fault e (OpOpen dstPath) = None \<longrightarrow>
      (\<exists>cached. files w dstPath = Some cached
         \<and> fst (getOrGenerateThumbnailImage e w source dstPath) = Inr (FileStream dstPath cached)))
 \<and> (os_Stat e w dstPath = Some err \<and> errors_Is err ErrNotExist
       \<and> sint (availableGeneratorAmount w) \<le> 0 \<longrightarrow>
      getOrGenerateThumbnailImage e w source dstPath
        = (Inl (New ''not enough available generator amount''), w\<lparr>trace := trace w @ [CounterLoad]\<rparr>))
 \<and> availableGeneratorAmount (snd (getOrGenerateThumbnailImage e w source dstPath))
      = availableGeneratorAmount w
 \<and> (trace (snd (getOrGenerateThumbnailImage e w source dstPath)) = trace w
      \<or> trace (snd (getOrGenerateThumbnailImage e w source dstPath)) = trace w @ [CounterLoad]
      \<or> trace (snd (getOrGenerateThumbnailImage e w source dstPath))
           = trace w @ [CounterLoad, CounterAdd (- 1), CounterAdd 1])"
proof -
  let ?w1 = "AddInt32 (w\<lparr>trace := trace w @ [CounterLoad]\<rparr>) (- 1)"
  have g: "availableGeneratorAmount (snd (generateThumbnail e ?w1 source dstPath)) = availableGeneratorAmount ?w1"
          "trace (snd (generateThumbnail e ?w1 source dstPath)) = trace ?w1"
    using generateThumbnail_counter [of e ?w1 source dstPath] by simp_all
  have hit: "os_Stat e w dstPath = None \<longrightarrow>
      getOrGenerateThumbnailImage e w source dstPath = (os_Open e w dstPath, w)"
    by (simp add: getOrGenerateThumbnailImage_def)
  have cached: "os_Stat e w dstPath = None \<and> dstPath \<noteq> [] \<and> fault e (OpOpen dstPath) = None \<longrightarrow>
      (\<exists>cached. files w dstPath = Some cached
         \<and> fst (getOrGenerateThumbnailImage e w source dstPath) = Inr (FileStream dstPath cached))"
    by (auto simp: getOrGenerateThumbnailImage_def os_Stat_def os_Open_def split: option.splits)
  have full: "os_Stat e w dstPath = Some err \<and> errors_Is err ErrNotExist
       \<and> sint (availableGeneratorAmount w) \<le> 0 \<longrightarrow>
      getOrGenerateThumbnailImage e w source dstPath
        = (Inl (New ''not enough available generator amount''), w\<lparr>trace := trace w @ [CounterLoad]\<rparr>)"
    by (simp add: getOrGenerateThumbnailImage_def LoadInt32_def)
  have same: "availableGeneratorAmount (snd (getOrGenerateThumbnailImage e w source dstPath))
      = availableGeneratorAmount w"
    using g by (auto simp: getOrGenerateThumbnailImage_def LoadInt32_def AddInt32_def Let_def
        split: option.splits prod.splits)
  have tr: "trace (snd (getOrGenerateThumbnailImage e w source dstPath)) = trace w
      \<or> trace (snd (getOrGenerateThumbnailImage e w source dstPath)) = trace w @ [CounterLoad]
      \<or> trace (snd (getOrGenerateThumbnailImage e w source dstPath))
           = trace w @ [CounterLoad, CounterAdd (- 1), CounterAdd 1]"
    using g by (auto simp: getOrGenerateThumbnailImage_def LoadInt32_def AddInt32_def Let_def
        split: option.splits prod.splits)
  from hit cached full same tr show ?thesis by blast
qed

theorem thumbnail_budget_preserved_witness:
  "getOrGenerateThumbnailImage (calm (clock 1700000000)) (spent\<lparr>files := [thumb \<mapsto> [5]]\<rparr>) [1, 2] thumb
     = (Inr (FileStream thumb [5]), spent\<lparr>files := [thumb \<mapsto> [5]]\<rparr>)
   \<and> getOrGenerateThumbnailImage (calm (clock 1700000000)) spent [1, 2] thumb
     = (Inl (New ''not enough available generator amount''), spent\<lparr>trace := [CounterLoad]\<rparr>)
   \<and> availableGeneratorAmount (snd (getOrGenerateThumbnailImage (calm (clock 1700000000)) blank [] thumb)) = 32
   \<and> fst (getOrGenerateThumbnailImage (calm (clock 1700000000)) blank [] thumb)
     = Inl (Wrapped (Failure ''image: unknown format'') ''failed to decode thumbnail image'')
   \<and> trace (snd (getOrGenerateThumbnailImage (calm (clock 1700000000)) blank [] thumb))
     = [CounterLoad, CounterAdd (- 1), CounterAdd 1]
   \<and> availableGeneratorAmount (snd (getOrGenerateThumbnailImage (calm (clock 1700000000)) blank [1, 2] thumb)) = 32
   \<and> fst (getOrGenerateThumbnailImage (calm (clock 1700000000)) blank [1, 2] thumb)
     = Inr (FileStream thumb [1])"
proof -
  let ?e = "calm (clock 1700000000)"
  let ?hot = "spent\<lparr>files := [thumb \<mapsto> [5]]\<rparr>"
  have nofault: "fault ?e op = None" for op
    by (simp add: calm_def)
  have there: "os_Stat ?e ?hot thumb = None"
    by (simp add: os_Stat_def nofault)
  have opened: "os_Open ?e ?hot thumb = Inr (FileStream thumb [5])"
    by (simp add: os_Open_def nofault thumb_def)
  have absent: "os_Stat ?e spent thumb = Some ErrNotExist"
    by (simp add: os_Stat_def nofault spent_def blank_def)
  have zero: "sint (availableGeneratorAmount spent) \<le> 0" "trace spent = []"
    by (simp_all add: spent_def blank_def)
  have full: "availableGeneratorAmount blank = 32"
    by (simp add: blank_def)
  have 1: "getOrGenerateThumbnailImage ?e ?hot [1, 2] thumb = (Inr (FileStream thumb [5]), ?hot)"
    using thumbnail_budget_preserved [of ?e ?hot thumb "[1, 2]"] there opened by simp
  have 2: "getOrGenerateThumbnailImage ?e spent [1, 2] thumb
     = (Inl (New ''not enough available generator amount''), spent\<lparr>trace := [CounterLoad]\<rparr>)"
    using thumbnail_budget_preserved [of ?e spent thumb "[1, 2]" ErrNotExist] absent zero by simp
  have 3: "availableGeneratorAmount (snd (getOrGenerateThumbnailImage ?e blank [] thumb)) = 32"
    using thumbnail_budget_preserved [of ?e blank thumb "[]"] full by simp
  have 4: "availableGeneratorAmount (snd (getOrGenerateThumbnailImage ?e blank [1, 2] thumb)) = 32"
    using thumbnail_budget_preserved [of ?e blank thumb "[1, 2]"] full by simp
  have 5: "fst (getOrGenerateThumbnailImage ?e blank [] thumb)
     = Inl (Wrapped (Failure ''image: unknown format'') ''failed to decode thumbnail image'')"
    by code_simp
  have 6: "trace (snd (getOrGenerateThumbnailImage ?e blank [] thumb))
     = [CounterLoad, CounterAdd (- 1), CounterAdd 1]"
    by code_simp
  have 7: "fst (getOrGenerateThumbnailImage ?e blank [1, 2] thumb) = Inr (FileStream thumb [1])"
    by code_simp
  from 1 2 3 4 5 6 7 show ?thesis by blast
qed

text \<open>
  Claim C7 (provider resolved by type tag on save): when the active backend is not the
  embedded store, \<open>SaveResourceBlob\<close> resolves the provider by the storage's type tag, the
  tag that \<open>GetResourceContent\<close> uses on reading. The save looks the provider up under the
  storage's name: for the storage named \<open>Local\<close> of type \<open>local\<close>, the save fails with an
  unknown provider, while the registry has the provider under the type tag and the read
  path resolves it.
\<close>

theorem SaveResourceBlob_looks_up_by_name:
  "GetStorage (memoStore Public) 1
     = Inr (Some \<lparr>storage_ID = 1, storage_Name = ''Local'', storage_Type = ''local'', storage_Config = ''{}''\<rparr>)
   \<and> map_option fst (SaveResourceBlob api (memoStore Public) (calm (clock 1700000000)) blank bare [1, 2, 3])
      = Some (Some (Wrapped (Wrapped ErrProviderUnknown ''get provider %q'') ''create storage %d''))
   \<and> CreateProvider (calm (clock 1700000000)) ''local'' ''{}''
      = Inr (LocalProvider \<lparr>rootDir = [], pattern = [], rawKey = False\<rparr>)
   \<and> GetResourceContent (memoStore Public) (calm (clock 1700000000)) blank
        (bare\<lparr>StorageID := Some 1, ExternalLink := ''ab/cd/ef/0123''\<rparr>)
      = Some (Download (calm (clock 1700000000)) (LocalProvider \<lparr>rootDir = [], pattern = [], rawKey = False\<rparr>)
                ''ab/cd/ef/0123'' blank)"
  by code_simp

text \<open>
  Claim C8 (text is served as plain text): a resource whose declared type starts with
  \<open>text\<close> is answered with the content type \<^verbatim>\<open>text/plain; charset=UTF-8\<close>, whether its
  stream can seek or not. The HTML page read from an embedded blob is streamed with that
  type; the same page read from a file is handed to \<^verbatim>\<open>http.ServeContent\<close> with no content
  type set, and goes out with the type of its extension, \<^verbatim>\<open>text/html; charset=utf-8\<close>.
\<close>

theorem text_override_skipped_for_seekable_stream:
  "HasPrefix (ToLower (Type page)) ''text''
   \<and> fst (streamResourceContent (memoStore Public) (calm (clock 1700000000)) disk None [] page)
      = Some (Inr (ServeContent (response_headers page) ''page.html'' 1700000000 [60, 104, 49, 62]))
   \<and> response_content_type (calm (clock 1700000000))
        (ServeContent (response_headers page) ''page.html'' 1700000000 [60, 104, 49, 62])
      = ''text/html; charset=utf-8''
   \<and> ''text/html; charset=utf-8'' \<noteq> MIMETextPlainCharsetUTF8
   \<and> fst (streamResourceContent (memoStore Public) (calm (clock 1700000000)) disk None []
            (page\<lparr>InternalPath := [], Blob := Some [60, 104, 49, 62]\<rparr>))
      = Some (Inr (Stream (response_headers page) 200 MIMETextPlainCharsetUTF8 [60, 104, 49, 62]))"
  by code_simp

text \<open>
  Claim C9 (orphaned memo link): when the resource names a parent memo and the lookup gives
  no memo and no error, the visibility check lets every caller pass, the anonymous one
  included, and the request goes on to the delivery of the content.
\<close>

theorem orphaned_memo_link_skips_check:
  assumes "MemoID resource = Some memoID" and "GetMemo s memoID = Inr None"
  shows "checkMemoVisibility s userID resource = None
       \<and> streamResourceContent s e w userID thumbnail resource = deliverContent s e w thumbnail resource"
  using assms by (simp add: streamResourceContent_def checkMemoVisibility_def)

theorem orphaned_memo_link_skips_check_witness:
  "MemoID orphan = Some 6 \<and> GetMemo (memoStore Private) 6 = Inr None
   \<and> streamResourceContent (memoStore Private) (calm (clock 1700000000)) blank None [] orphan
       = (Some (Inr (Stream (response_headers orphan) 200 MIMETextPlainCharsetUTF8 [104, 105])), blank)"
proof -
  have m: "MemoID orphan = Some 6"
    by (simp add: orphan_def)
  have g: "GetMemo (memoStore Private) 6 = Inr None"
    by (simp add: memoStore_def)
  have d: "deliverContent (memoStore Private) (calm (clock 1700000000)) blank [] orphan
     = (Some (Inr (Stream (response_headers orphan) 200 MIMETextPlainCharsetUTF8 [104, 105])), blank)"
    by (simp add: deliverContent_def GetResourceContent_def orphan_def bare_def respond_def
        ToLower_def HasPrefix_def is_upper_def MIMETextPlainCharsetUTF8_def)
  show ?thesis
    using m g orphaned_memo_link_skips_check [OF m g, of None "calm (clock 1700000000)" blank "[]"]
    by (simp add: d)
qed

text \<open>
  Claim C10 (deleting a resource that does not exist): when the metadata store lists no
  resource for the ID, \<open>DeleteResource\<close> returns no error, since wrapping a nil cause gives
  nil, and leaves everything as it was: no file removed, no thumbnail removed, no delete
  sent to the driver.
\<close>

theorem DeleteResource_missing_is_silent:
  assumes "driver_ListResources s (FindResource_by_ID (delete_ID del)) = Inr []"
  shows "Store_DeleteResource s e w del = (None, w)"
  using assms by (simp add: Store_DeleteResource_def GetResource_def ListResources_def)

theorem DeleteResource_missing_is_silent_witness:
  "driver_ListResources (memoStore Public) (FindResource_by_ID 7) = Inr []
   \<and> Store_DeleteResource (memoStore Public) (calm (clock 1700000000))
        (blank\<lparr>files := [''/var/opt/memos/.thumbnail_cache/7.png'' \<mapsto> [1]]\<rparr>)
        \<lparr>delete_ID = 7, delete_MemoID = None\<rparr>
      = (None, blank\<lparr>files := [''/var/opt/memos/.thumbnail_cache/7.png'' \<mapsto> [1]]\<rparr>)"
proof -
  have h: "driver_ListResources (memoStore Public)
             (FindResource_by_ID (delete_ID \<lparr>delete_ID = 7, delete_MemoID = None\<rparr>)) = Inr []"
    by (simp add: memoStore_def)
  show ?thesis
    using h DeleteResource_missing_is_silent [OF h] by simp
qed

end
